theory Spec2Isabelle
  imports Main "HOL-Library.Word"
begin

section \<open>Data model\<close>

text \<open>
  The packages under verification are Go code on top of a relational store reached through
  an ORM. Identifiers are \<open>int64\<close> values that are only compared, never computed with, and
  are modelled as \<open>int\<close>. Unix timestamps and intervals take part in additions and are
  modelled as 64-bit words, so that \<open>+\<close> wraps as it does in Go.
\<close>

type_synonym int64 = "64 word"

text \<open>Every error value the modelled functions can return.\<close>

datatype error =
    ErrStoreUnavailable
  | ErrListDoesNotExist int
  | ErrNamespaceDoesNotExist int
  | ErrUserDoesNotExist int
  | ErrListIsArchived int
  | ErrNamespaceIsArchived int
  | ErrParentTaskCannotBeTheSame int
  | ErrOther string

text \<open>A user is an identity with a numeric id.\<close>

record User =
  uID :: int
  uUsername :: string

definition zeroUser :: User where
  "zeroUser = \<lparr>uID = 0, uUsername = ''''\<rparr>"

text \<open>
  The rights a team can hold. The constants \<open>TeamRightRead\<close>, \<open>TeamRightWrite\<close> and
  \<open>TeamRightAdmin\<close> are used by the rights predicates; their declaration is not part of the
  sources at hand. The queries only compare them for equality.
\<close>

datatype TeamRight = TeamRightRead | TeamRightWrite | TeamRightAdmin

text \<open>
  A namespace. The struct declaration is not part of the sources at hand; the fields are
  the ones the code reads (\<open>ID\<close>, \<open>Owner.ID\<close>, the columns \<open>id\<close>, \<open>owner_id\<close> and
  \<open>is_archived\<close>). \<open>nOwner\<close> is filled by the loader and is not a column.
\<close>

record Namespace =
  nID :: int
  nOwnerID :: int
  nOwner :: User
  nIsArchived :: bool

definition zeroNamespace :: Namespace where
  "zeroNamespace = \<lparr>nID = 0, nOwnerID = 0, nOwner = zeroUser, nIsArchived = False\<rparr>"

text \<open>
  The list as the rights predicates of \<open>models/list_rights.go\<close> read it: they compare
  \<open>l.Owner.ID\<close> on a list value obtained from \<open>GetListByID\<close> whose error was discarded, so
  \<open>Owner\<close> is a struct value there.
\<close>

record List_v1 =
  vID :: int
  vOwnerID :: int
  vNamespaceID :: int
  vOwner :: User

definition zeroList_v1 :: List_v1 where
  "zeroList_v1 = \<lparr>vID = 0, vOwnerID = 0, vNamespaceID = 0, vOwner = zeroUser\<rparr>"

text \<open>Background information attached to a list by \<open>addListDetails\<close>.\<close>

record UnsplashPhoto =
  upID :: int
  upFileID :: int
  upAuthor :: string

datatype BackgroundInformation =
    NoBackgroundInformation
  | ListBackgroundUpload
  | UnsplashBackground UnsplashPhoto

text \<open>
  The \<open>List\<close> struct as declared. \<open>Owner\<close> is a pointer (\<open>None\<close> is nil); \<open>Tasks\<close>,
  \<open>Buckets\<close>, \<open>Subscription\<close> and the two timestamps play no part in the functions modelled
  here and are left out.
\<close>

record List_t =
  lID :: int
  lTitle :: string
  lDescription :: string
  lIdentifier :: string
  lHexColor :: string
  lOwnerID :: int
  lNamespaceID :: int
  lOwner :: "User option"
  lIsArchived :: bool
  lBackgroundFileID :: int
  lBackgroundInformation :: BackgroundInformation
  lIsFavorite :: bool

definition zeroList :: List_t where
  "zeroList = \<lparr>lID = 0, lTitle = [], lDescription = [], lIdentifier = [], lHexColor = [],
     lOwnerID = 0, lNamespaceID = 0, lOwner = None, lIsArchived = False, lBackgroundFileID = 0,
     lBackgroundInformation = NoBackgroundInformation, lIsFavorite = False\<rparr>"

text \<open>
  A task. The struct declaration is not part of the sources at hand; the fields are the
  ones \<open>Create\<close>, \<open>Update\<close> and \<open>updateDone\<close> read or write. A nil slice and an empty
  slice are both the empty list.
\<close>

record ListTask =
  tID :: int
  tText :: string
  tDescription :: string
  tDone :: bool
  tDoneAtUnix :: int64
  tDueDateUnix :: int64
  tRemindersUnix :: "int64 list"
  tCreatedByID :: int
  tListID :: int
  tRepeatAfter :: int64
  tParentTaskID :: int
  tPriority :: int64
  tStartDateUnix :: int64
  tEndDateUnix :: int64
  tAssignees :: "User list"
  tHexColor :: string
  tUID :: string
  tCreatedBy :: User

text \<open>
  The two kinds of principal behind \<open>web.Auth\<close>. The \<open>LinkSharing\<close> struct is not part of
  the sources at hand; \<open>ReadAll\<close> reads its \<open>ListID\<close>, and the specification gives it one
  right on one list.
\<close>

datatype Right = RightNone | RightRead | RightWrite | RightAdmin

record LinkSharing =
  lsID :: int
  lsHash :: string
  lsListID :: int
  lsRight :: Right

datatype Auth = UserAuth User | LinkShareAuth LinkSharing

text \<open>Rows of the relation tables the queries join.\<close>

record TeamNamespace =
  tnID :: int
  tnTeamID :: int
  tnNamespaceID :: int
  tnRight :: TeamRight

record TeamMember =
  tmID :: int
  tmTeamID :: int
  tmUserID :: int

record TeamList =
  tlID :: int
  tlTeamID :: int
  tlListID :: int
  tlRights :: TeamRight

section \<open>The store\<close>

text \<open>
  The relational store: one list of rows per table, in storage order. \<open>unavailable\<close> stands
  for a store whose queries fail; every query then returns an error.
\<close>

record Store =
  users :: "User list"
  namespaces :: "Namespace list"
  list_tbl :: "List_t list"
  team_namespaces :: "TeamNamespace list"
  team_members :: "TeamMember list"
  team_list :: "TeamList list"
  unsplash_photos :: "UnsplashPhoto list"
  tasks :: "ListTask list"
  unavailable :: bool

text \<open>
  \<open>LEFT JOIN\<close>: every row of the left side is kept; it is paired with each right row that
  satisfies the \<open>ON\<close> condition, or with \<open>NULL\<close> (\<open>None\<close>) when there is none.
\<close>

definition left_join :: "'a list \<Rightarrow> ('a \<Rightarrow> 'b \<Rightarrow> bool) \<Rightarrow> 'b list \<Rightarrow> ('a \<times> 'b option) list" where
  "left_join xs on ys =
     concat (map (\<lambda>x. case filter (on x) ys of
                          [] \<Rightarrow> [(x, None)]
                        | m # ms \<Rightarrow> map (\<lambda>y. (x, Some y)) (m # ms)) xs)"

text \<open>
  A comparison \<open>column = value\<close> on a column that may be \<open>NULL\<close>. SQL evaluates it to
  \<open>NULL\<close> on a \<open>NULL\<close> column; the conditions below combine comparisons with \<open>AND\<close> and
  \<open>OR\<close> only, and a row is selected when the condition is true, so \<open>NULL\<close> can be read as
  false.
\<close>

definition col_eq :: "'a option \<Rightarrow> 'a \<Rightarrow> bool" where
  "col_eq c v = (case c of None \<Rightarrow> False | Some w \<Rightarrow> w = v)"

section \<open>Namespace rights (models/namespace\_rights.go)\<close>

text \<open>
  \<open>checkTeamRights\<close>: the query selects from \<open>namespaces\<close>, left-joined with
  \<open>team_namespaces\<close> on the namespace id and with \<open>team_members\<close> on the team id, the rows
  with \<open>(team_members.user_id = ? AND team_namespaces.right = ?) OR namespaces.owner_id = ?\<close>.
  \<open>Get\<close> is given an empty bean, which adds no condition, and reports whether a row was
  found. A failing query yields false.
\<close>

definition checkTeamRights_rows :: "Store \<Rightarrow> ((Namespace \<times> TeamNamespace option) \<times> TeamMember option) list" where
  "checkTeamRights_rows x =
     left_join
       (left_join (namespaces x) (\<lambda>ns tn. nID ns = tnNamespaceID tn) (team_namespaces x))
       (\<lambda>(ns, tn) tm. col_eq (map_option tnTeamID tn) (tmTeamID tm))
       (team_members x)"

definition checkTeamRights :: "Store \<Rightarrow> Namespace \<Rightarrow> User \<Rightarrow> TeamRight \<Rightarrow> bool" where
  "checkTeamRights x n user r =
     (if unavailable x then False
      else list_ex (\<lambda>((ns, tn), tm).
             (col_eq (map_option tmUserID tm) (uID user) \<and> col_eq (map_option tnRight tn) r)
             \<or> nOwnerID ns = uID user)
           (checkTeamRights_rows x))"

definition Namespace_IsAdmin :: "Store \<Rightarrow> Namespace \<Rightarrow> User \<Rightarrow> bool" where
  "Namespace_IsAdmin x n user =
     (if uID user = uID (nOwner n) then True
      else checkTeamRights x n user TeamRightAdmin)"

definition Namespace_CanWrite :: "Store \<Rightarrow> Namespace \<Rightarrow> User \<Rightarrow> bool" where
  "Namespace_CanWrite x n user =
     (if uID user = uID (nOwner n) then True
      else if Namespace_IsAdmin x n user then True
      else checkTeamRights x n user TeamRightWrite)"

definition Namespace_CanRead :: "Store \<Rightarrow> Namespace \<Rightarrow> User \<Rightarrow> bool" where
  "Namespace_CanRead x n user =
     (if uID user = uID (nOwner n) then True
      else if Namespace_IsAdmin x n user then True
      else checkTeamRights x n user TeamRightRead)"

text \<open>
  \<open>CanUpdate\<close> and \<open>CanDelete\<close> load the namespace by id, discard the error of the lookup
  and evaluate \<open>IsAdmin\<close> on the value it returned. \<open>GetNamespaceByID\<close> is not part of the
  sources at hand and is a parameter: a lookup returns a namespace value and an error
  (\<open>None\<close> is nil).
\<close>

type_synonym namespace_lookup = "Store \<Rightarrow> int \<Rightarrow> Namespace \<times> error option"



definition Namespace_CanCreate :: "Namespace \<Rightarrow> User \<Rightarrow> bool" where
  "Namespace_CanCreate n user = True"

section \<open>List rights (models/list\_rights.go)\<close>

text \<open>
  \<open>checkListTeamRight\<close>: the query selects from \<open>list l\<close>, left-joined with
  \<open>team_namespaces tn\<close> on \<open>tn.namespace_id = tn.id\<close>, with \<open>team_members tm\<close> on the team
  of \<open>tn\<close>, with \<open>team_list tl\<close> on the list id and with \<open>team_members tm2\<close> on the team of
  \<open>tl\<close>, the rows with
  \<open>((tm.user_id = ? AND tn.right = ?) OR (tm2.user_id = ? AND tl.rights = ?)) AND l.id = ?\<close>.
\<close>

definition checkListTeamRight_rows ::
  "Store \<Rightarrow> ((((List_t \<times> TeamNamespace option) \<times> TeamMember option) \<times> TeamList option) \<times> TeamMember option) list" where
  "checkListTeamRight_rows x =
     left_join
       (left_join
         (left_join
           (left_join (list_tbl x) (\<lambda>l tn. tnNamespaceID tn = tnID tn) (team_namespaces x))
           (\<lambda>(l, tn) tm. col_eq (map_option tnTeamID tn) (tmTeamID tm))
           (team_members x))
         (\<lambda>((l, tn), tm) tl. lID l = tlListID tl)
         (team_list x))
       (\<lambda>(((l, tn), tm), tl) tm2. col_eq (map_option tlTeamID tl) (tmTeamID tm2))
       (team_members x)"

definition checkListTeamRight :: "Store \<Rightarrow> List_v1 \<Rightarrow> User \<Rightarrow> TeamRight \<Rightarrow> bool" where
  "checkListTeamRight x l user r =
     (if unavailable x then False
      else list_ex (\<lambda>((((row, tn), tm), tl), tm2).
             ((col_eq (map_option tmUserID tm) (uID user) \<and> col_eq (map_option tnRight tn) r)
              \<or> (col_eq (map_option tmUserID tm2) (uID user) \<and> col_eq (map_option tlRights tl) r))
             \<and> lID row = vID l)
           (checkListTeamRight_rows x))"

definition List_IsAdmin :: "Store \<Rightarrow> List_v1 \<Rightarrow> User \<Rightarrow> bool" where
  "List_IsAdmin x l user =
     (if uID (vOwner l) = uID user then True
      else checkListTeamRight x l user TeamRightAdmin)"

definition List_CanWrite :: "Store \<Rightarrow> List_v1 \<Rightarrow> User \<Rightarrow> bool" where
  "List_CanWrite x l user =
     (if uID (vOwner l) = uID user then True
      else if List_IsAdmin x l user then True
      else checkListTeamRight x l user TeamRightWrite)"

definition List_CanRead :: "Store \<Rightarrow> List_v1 \<Rightarrow> User \<Rightarrow> bool" where
  "List_CanRead x l user =
     (if uID (vOwner l) = uID user then True
      else if List_IsAdmin x l user then True
      else checkListTeamRight x l user TeamRightRead)"

text \<open>
  \<open>CanDelete\<close>, \<open>CanUpdate\<close> and \<open>CanCreate\<close> load the list (the namespace for
  \<open>CanCreate\<close>) by id and discard the error of the lookup. \<open>GetListByID\<close> is not part of
  the sources at hand and is a parameter.
\<close>

type_synonym list_lookup = "Store \<Rightarrow> int \<Rightarrow> List_v1 \<times> error option"



definition List_CanCreate :: "namespace_lookup \<Rightarrow> Store \<Rightarrow> List_v1 \<Rightarrow> User \<Rightarrow> bool" where
  "List_CanCreate GetNamespaceByID x l doer =
     (let (n, _) = GetNamespaceByID x (vNamespaceID l) in Namespace_CanWrite x n doer)"

section \<open>Lookups by id\<close>

text \<open>
  Modelled from the spec: \<open>GetNamespaceByID\<close> and \<open>GetListByID\<close> are not part of the sources
  at hand. The specification (6) gives them as \<open>GetNamespace(id) \<rightarrow> Namespace | NotFound\<close>
  and \<open>GetList(id) \<rightarrow> List | NotFound\<close>. The Go functions return a value next to the error;
  it is read here as the stored row with its owner loaded when the id resolves, and as the
  zero value of the struct when it does not.
\<close>

definition GetUserByID :: "Store \<Rightarrow> int \<Rightarrow> User \<times> error option" where
  "GetUserByID x i =
     (if unavailable x then (zeroUser, Some ErrStoreUnavailable)
      else case find (\<lambda>u. uID u = i) (users x) of
             None \<Rightarrow> (zeroUser, Some (ErrUserDoesNotExist i))
           | Some u \<Rightarrow> (u, None))"

definition GetNamespaceByID :: namespace_lookup where
  "GetNamespaceByID x i =
     (if unavailable x then (zeroNamespace, Some ErrStoreUnavailable)
      else case find (\<lambda>n. nID n = i) (namespaces x) of
             None \<Rightarrow> (zeroNamespace, Some (ErrNamespaceDoesNotExist i))
           | Some n \<Rightarrow> (let (u, err) = GetUserByID x (nOwnerID n) in (n\<lparr>nOwner := u\<rparr>, err)))"

definition GetListByID :: list_lookup where
  "GetListByID x i =
     (if unavailable x then (zeroList_v1, Some ErrStoreUnavailable)
      else case find (\<lambda>r. lID r = i) (list_tbl x) of
             None \<Rightarrow> (zeroList_v1, Some (ErrListDoesNotExist i))
           | Some r \<Rightarrow>
               (let (u, err) = GetUserByID x (lOwnerID r)
                in (\<lparr>vID = lID r, vOwnerID = lOwnerID r, vNamespaceID = lNamespaceID r, vOwner = u\<rparr>,
                    err)))"

section \<open>Lists (list\_rights.go, from the \<open>List\<close> struct on)\<close>

text \<open>
  \<open>GetListSimpleByID\<close>: ids below 1 do not exist; otherwise the first row of \<open>list\<close> with
  that id is returned, or \<open>ErrListDoesNotExist\<close> when there is none.
\<close>

definition GetListSimpleByID :: "Store \<Rightarrow> int \<Rightarrow> error + List_t" where
  "GetListSimpleByID s listID =
     (if listID < 1 then Inl (ErrListDoesNotExist listID)
      else if unavailable s then Inl ErrStoreUnavailable
      else case find (\<lambda>r. lID r = listID) (list_tbl s) of
             None \<Rightarrow> Inl (ErrListDoesNotExist listID)
           | Some list \<Rightarrow> Inr list)"

text \<open>
  \<open>Find\<close> into a Go map keyed by a column: a later row with the same key replaces an
  earlier one.
\<close>

definition find_last :: "('a \<Rightarrow> bool) \<Rightarrow> 'a list \<Rightarrow> 'a option" where
  "find_last P xs = find P (rev xs)"

text \<open>
  \<open>addListDetails\<close>: nothing to do on an empty slice. Otherwise the owners of all lists are
  loaded into a map by id; each list gets its owner when the map has one, and the upload
  background type when it has a background file; then the unsplash photos of all
  background files are loaded into a map by file id, and a list whose file has a photo
  gets the photo as its background information. The lists are updated in place, so on an
  error the caller still sees the updates made so far.
\<close>

definition addOwnerAndUpload :: "Store \<Rightarrow> int list \<Rightarrow> List_t \<Rightarrow> List_t" where
  "addOwnerAndUpload s ownerIDs l =
     (let l1 = (case find_last (\<lambda>u. uID u \<in> set ownerIDs \<and> uID u = lOwnerID l) (users s) of
                  Some ow \<Rightarrow> l\<lparr>lOwner := Some ow\<rparr>
                | None \<Rightarrow> l)
      in if lBackgroundFileID l1 \<noteq> 0
         then l1\<lparr>lBackgroundInformation := ListBackgroundUpload\<rparr>
         else l1)"

definition addUnsplash :: "Store \<Rightarrow> int list \<Rightarrow> List_t \<Rightarrow> List_t" where
  "addUnsplash s fileIDs l =
     (case find_last (\<lambda>u. upFileID u \<in> set fileIDs \<and> upFileID u = lBackgroundFileID l)
             (unsplash_photos s) of
        Some u \<Rightarrow> l\<lparr>lBackgroundInformation := UnsplashBackground u\<rparr>
      | None \<Rightarrow> l)"

definition addListDetails :: "Store \<Rightarrow> List_t list \<Rightarrow> List_t list \<times> error option" where
  "addListDetails s lsts =
     (if length lsts = 0 then (lsts, None)
      else let ownerIDs = map lOwnerID lsts in
        if length ownerIDs > 0 \<and> unavailable s then (lsts, Some ErrStoreUnavailable)
        else let lsts1 = map (addOwnerAndUpload s ownerIDs) lsts;
                 fileIDs = map lBackgroundFileID lsts in
          if length fileIDs = 0 then (lsts1, None)
          else if unavailable s then (lsts1, Some ErrStoreUnavailable)
          else (map (addUnsplash s fileIDs) lsts1, None))"

text \<open>
  \<open>ReadAll\<close>. With a link share as principal the list of the share is loaded and returned
  alone, with counts 0. With a user the lsts come from \<open>getRawListsForUser\<close>, whose result
  depends on the pagination helper, the user lookup and the collation of the store's
  \<open>LIKE\<close>, none of which are part of the sources at hand; it is a parameter.
\<close>

record listOptions =
  oSearch :: string
  oUser :: User
  oPage :: int
  oPerPage :: int
  oIsArchived :: bool

type_synonym raw_lists = "Store \<Rightarrow> listOptions \<Rightarrow> error + (List_t list \<times> int \<times> int)"

definition auth_GetID :: "Auth \<Rightarrow> int" where
  "auth_GetID a = (case a of UserAuth u \<Rightarrow> uID u | LinkShareAuth sh \<Rightarrow> lsID sh)"

definition ReadAll ::
  "raw_lists \<Rightarrow> Store \<Rightarrow> List_t \<Rightarrow> Auth \<Rightarrow> string \<Rightarrow> int \<Rightarrow> int
     \<Rightarrow> List_t list option \<times> int \<times> int \<times> error option" where
  "ReadAll getRawListsForUser s l a search page perPage =
     (case a of
        LinkShareAuth shareAuth \<Rightarrow>
          (case GetListSimpleByID s (lsListID shareAuth) of
             Inl err \<Rightarrow> (None, 0, 0, Some err)
           | Inr list \<Rightarrow>
               (let (lsts, err) = addListDetails s [list] in (Some lsts, 0, 0, err)))
      | UserAuth u \<Rightarrow>
          (case getRawListsForUser s
                  \<lparr>oSearch = search, oUser = \<lparr>uID = auth_GetID a, uUsername = ''''\<rparr>,
                   oPage = page, oPerPage = perPage, oIsArchived = lIsArchived l\<rparr> of
             Inl err \<Rightarrow> (None, 0, 0, Some err)
           | Inr (lsts, resultCount, totalItems) \<Rightarrow>
               (let (lsts', err) = addListDetails s lsts
                in (Some lsts', resultCount, totalItems, err))))"

text \<open>
  Modelled from the spec: the rights predicates for a \<open>LinkSharing\<close> principal are not part
  of the sources at hand. The specification (4.3) says that the effective right of a link
  share is its stored right on its stored list and none on every other list, with the
  team and namespace machinery not consulted.
\<close>

definition LinkSharing_EffectiveRight :: "LinkSharing \<Rightarrow> List_t \<Rightarrow> Right" where
  "LinkSharing_EffectiveRight share l =
     (if lID l = lsListID share then lsRight share else RightNone)"

section \<open>Archived lists and namespaces\<close>




section \<open>Updating a task (pkg/models/list\_tasks\_create\_update.go)\<close>

text \<open>
  \<open>updateDone\<close> works on the stored task and on the incoming one, and may change both. The
  current time is a parameter.
\<close>

definition updateDone :: "int64 \<Rightarrow> ListTask \<Rightarrow> ListTask \<Rightarrow> ListTask \<times> ListTask" where
  "updateDone now oldTask newTask =
     (let (o1, n1) =
            (if \<not> tDone oldTask \<and> tDone newTask \<and> 0 <s tRepeatAfter oldTask
             then (oldTask\<lparr>tDueDateUnix := tDueDateUnix oldTask + tRepeatAfter oldTask,
                           tRemindersUnix := map (\<lambda>r. r + tRepeatAfter oldTask) (tRemindersUnix oldTask)\<rparr>,
                   newTask\<lparr>tDone := False\<rparr>)
             else (oldTask, newTask));
          o2 = (if \<not> tDone o1 \<and> tDone n1 then o1\<lparr>tDoneAtUnix := now\<rparr> else o1);
          o3 = (if tDone o2 \<and> \<not> tDone n1 then o2\<lparr>tDoneAtUnix := 0\<rparr> else o2)
      in (o3, n1))"

text \<open>
  \<open>mergo.Merge\<close> with \<open>WithOverride\<close>: every field of the source that is not its zero value
  replaces the field of the destination; a struct-valued field is merged field by field.
  The library reports an error for arguments of different types, which two tasks are not.
\<close>

definition override :: "'a \<Rightarrow> 'a \<Rightarrow> 'a \<Rightarrow> 'a" where
  "override zero src dst = (if src \<noteq> zero then src else dst)"

definition mergo_Merge :: "ListTask \<Rightarrow> ListTask \<Rightarrow> error + ListTask" where
  "mergo_Merge dst src = Inr
     \<lparr>tID = override 0 (tID src) (tID dst),
      tText = override [] (tText src) (tText dst),
      tDescription = override [] (tDescription src) (tDescription dst),
      tDone = override False (tDone src) (tDone dst),
      tDoneAtUnix = override 0 (tDoneAtUnix src) (tDoneAtUnix dst),
      tDueDateUnix = override 0 (tDueDateUnix src) (tDueDateUnix dst),
      tRemindersUnix = override [] (tRemindersUnix src) (tRemindersUnix dst),
      tCreatedByID = override 0 (tCreatedByID src) (tCreatedByID dst),
      tListID = override 0 (tListID src) (tListID dst),
      tRepeatAfter = override 0 (tRepeatAfter src) (tRepeatAfter dst),
      tParentTaskID = override 0 (tParentTaskID src) (tParentTaskID dst),
      tPriority = override 0 (tPriority src) (tPriority dst),
      tStartDateUnix = override 0 (tStartDateUnix src) (tStartDateUnix dst),
      tEndDateUnix = override 0 (tEndDateUnix src) (tEndDateUnix dst),
      tAssignees = override [] (tAssignees src) (tAssignees dst),
      tHexColor = override [] (tHexColor src) (tHexColor dst),
      tUID = override [] (tUID src) (tUID dst),
      tCreatedBy = \<lparr>uID = override 0 (uID (tCreatedBy src)) (uID (tCreatedBy dst)),
                    uUsername = override [] (uUsername (tCreatedBy src)) (uUsername (tCreatedBy dst))\<rparr>\<rparr>"

text \<open>The block of \<open>Update\<close> that sets the zero values the merge ignored.\<close>

definition resetZeroFields :: "ListTask \<Rightarrow> ListTask \<Rightarrow> ListTask" where
  "resetZeroFields t ot =
     (let ot = (if \<not> tDone t then ot\<lparr>tDone := False\<rparr> else ot);
          ot = (if tPriority t = 0 then ot\<lparr>tPriority := 0\<rparr> else ot);
          ot = (if tDescription t = [] then ot\<lparr>tDescription := []\<rparr> else ot);
          ot = (if tDueDateUnix t = 0 then ot\<lparr>tDueDateUnix := 0\<rparr> else ot);
          ot = (if length (tRemindersUnix t) = 0 then ot\<lparr>tRemindersUnix := []\<rparr> else ot);
          ot = (if tRepeatAfter t = 0 then ot\<lparr>tRepeatAfter := 0\<rparr> else ot);
          ot = (if tParentTaskID t = 0 then ot\<lparr>tParentTaskID := 0\<rparr> else ot);
          ot = (if tStartDateUnix t = 0 then ot\<lparr>tStartDateUnix := 0\<rparr> else ot);
          ot = (if tEndDateUnix t = 0 then ot\<lparr>tEndDateUnix := 0\<rparr> else ot);
          ot = (if tHexColor t = [] then ot\<lparr>tHexColor := []\<rparr> else ot)
      in ot)"

text \<open>
  The statement \<open>x.ID(id).Cols(...).Update(ot)\<close>: the twelve named columns of the row with
  this id are set from \<open>ot\<close>, zero values included.
\<close>

definition write_cols :: "ListTask \<Rightarrow> ListTask \<Rightarrow> ListTask" where
  "write_cols ot row =
     row\<lparr>tText := tText ot,
         tDescription := tDescription ot,
         tDone := tDone ot,
         tDueDateUnix := tDueDateUnix ot,
         tRemindersUnix := tRemindersUnix ot,
         tRepeatAfter := tRepeatAfter ot,
         tParentTaskID := tParentTaskID ot,
         tPriority := tPriority ot,
         tStartDateUnix := tStartDateUnix ot,
         tEndDateUnix := tEndDateUnix ot,
         tHexColor := tHexColor ot,
         tDoneAtUnix := tDoneAtUnix ot\<rparr>"

definition update_task_cols :: "Store \<Rightarrow> int \<Rightarrow> ListTask \<Rightarrow> Store \<times> error option" where
  "update_task_cols x i ot =
     (if unavailable x then (x, Some ErrStoreUnavailable)
      else (x\<lparr>tasks := map (\<lambda>row. if tID row = i then write_cols ot row else row) (tasks x)\<rparr>, None))"

text \<open>
  \<open>GetTaskByID\<close>, \<open>updateTaskAssignees\<close> and the \<open>updateListLastUpdated\<close> of this revision
  are not part of the sources at hand and are parameters of \<open>Update\<close>: the lookup returns
  the stored task or an error, the assignee update returns the stored task as it left it
  or an error, and the timestamp update returns its error.
\<close>

record UpdateEnv =
  GetTaskByID :: "Store \<Rightarrow> int \<Rightarrow> error + ListTask"
  updateTaskAssignees :: "Store \<Rightarrow> ListTask \<Rightarrow> User list \<Rightarrow> error + ListTask"
  updateListLastUpdated :: "Store \<Rightarrow> int \<Rightarrow> error option"
  time_Now_Unix :: int64

text \<open>
  \<open>ListTask.Update\<close> returns the error, the task the receiver points to afterwards and the
  store afterwards. The receiver is overwritten with the merged task before the error of
  the store update is looked at.
\<close>

definition Update :: "UpdateEnv \<Rightarrow> Store \<Rightarrow> ListTask \<Rightarrow> error option \<times> ListTask \<times> Store" where
  "Update env x t =
     (case GetTaskByID env x (tID t) of
        Inl err \<Rightarrow> (Some err, t, x)
      | Inr ot \<Rightarrow>
          if tID t = tParentTaskID t then (Some (ErrParentTaskCannotBeTheSame (tID t)), t, x)
          else let (ot1, t1) = updateDone (time_Now_Unix env) ot t in
            (case updateTaskAssignees env x ot1 (tAssignees t1) of
               Inl err \<Rightarrow> (Some err, t1, x)
             | Inr ot2 \<Rightarrow>
                 (case mergo_Merge ot2 t1 of
                    Inl err \<Rightarrow> (Some err, t1, x)
                  | Inr ot3 \<Rightarrow>
                      (let ot4 = resetZeroFields t1 ot3;
                           (x', err) = update_task_cols x (tID t1) ot4
                       in if err \<noteq> None then (err, ot4, x')
                          else (updateListLastUpdated env x' (tListID ot4), ot4, x')))))"

section \<open>Example data\<close>

text \<open>Three users, two namespaces and one list, used to run the functions on stores.\<close>

definition alice :: User where "alice = \<lparr>uID = 1, uUsername = ''alice''\<rparr>"
definition bob :: User where "bob = \<lparr>uID = 2, uUsername = ''bob''\<rparr>"
definition carol :: User where "carol = \<lparr>uID = 3, uUsername = ''carol''\<rparr>"

definition ns_alice :: Namespace where
  "ns_alice = \<lparr>nID = 1, nOwnerID = 1, nOwner = alice, nIsArchived = False\<rparr>"

definition ns_bob :: Namespace where
  "ns_bob = \<lparr>nID = 2, nOwnerID = 2, nOwner = bob, nIsArchived = False\<rparr>"

definition row_list1 :: List_t where
  "row_list1 = zeroList\<lparr>lID := 1, lTitle := ''groceries'', lOwnerID := 1, lNamespaceID := 1\<rparr>"

definition list1 :: List_v1 where
  "list1 = \<lparr>vID = 1, vOwnerID = 1, vNamespaceID = 1, vOwner = alice\<rparr>"

definition empty_store :: Store where
  "empty_store = \<lparr>users = [alice, bob, carol], namespaces = [], list_tbl = [],
     team_namespaces = [], team_members = [], team_list = [], unsplash_photos = [],
     tasks = [], unavailable = False\<rparr>"

text \<open>Alice and Bob each own a namespace; there are no teams.\<close>

definition store_two_owners :: Store where
  "store_two_owners = empty_store\<lparr>namespaces := [ns_alice, ns_bob]\<rparr>"

text \<open>Team 1, whose only member is Carol, holds the read right on Bob's namespace.\<close>

definition store_grant_elsewhere :: Store where
  "store_grant_elsewhere = empty_store\<lparr>namespaces := [ns_alice, ns_bob],
     team_namespaces := [\<lparr>tnID = 1, tnTeamID = 1, tnNamespaceID = 2, tnRight = TeamRightRead\<rparr>],
     team_members := [\<lparr>tmID = 1, tmTeamID = 1, tmUserID = 3\<rparr>]\<rparr>"

text \<open>Team 1, whose only member is Bob, holds the write right on Alice's namespace.\<close>

definition store_write_team :: Store where
  "store_write_team = empty_store\<lparr>namespaces := [ns_alice],
     team_namespaces := [\<lparr>tnID = 1, tnTeamID = 1, tnNamespaceID = 1, tnRight = TeamRightWrite\<rparr>],
     team_members := [\<lparr>tmID = 1, tmTeamID = 1, tmUserID = 2\<rparr>]\<rparr>"

text \<open>
  Team 1, whose only member is Carol, holds the admin right on Alice's namespace, which
  contains list 1; team 2, without members, holds the read right on Bob's namespace. The
  two grants are the rows 2 and 1 of their table.
\<close>

definition store_admin_team :: Store where
  "store_admin_team = empty_store\<lparr>namespaces := [ns_alice, ns_bob], list_tbl := [row_list1],
     team_namespaces := [\<lparr>tnID = 1, tnTeamID = 2, tnNamespaceID = 2, tnRight = TeamRightRead\<rparr>,
                         \<lparr>tnID = 2, tnTeamID = 1, tnNamespaceID = 1, tnRight = TeamRightAdmin\<rparr>],
     team_members := [\<lparr>tmID = 1, tmTeamID = 1, tmUserID = 3\<rparr>]\<rparr>"

text \<open>Alice's namespace with list 1 in it, no teams.\<close>

definition store_one_list :: Store where
  "store_one_list = empty_store\<lparr>namespaces := [ns_alice], list_tbl := [row_list1]\<rparr>"

text \<open>An unsplash photo for file 9, and list 2 of Alice's namespace, which uses that file.\<close>

definition photo9 :: UnsplashPhoto where
  "photo9 = \<lparr>upID = 1, upFileID = 9, upAuthor = ''dora''\<rparr>"

definition row_list2 :: List_t where
  "row_list2 = zeroList\<lparr>lID := 2, lTitle := ''garden'', lOwnerID := 2, lNamespaceID := 1,
     lBackgroundFileID := 9\<rparr>"

text \<open>
  Lists 1 and 2 in Alice's namespace; Carol is in no team and owns nothing, team 1 with
  member Bob is admin on list 1.
\<close>

definition store_shared :: Store where
  "store_shared = empty_store\<lparr>namespaces := [ns_alice], list_tbl := [row_list1, row_list2],
     team_list := [\<lparr>tlID = 1, tlTeamID = 1, tlListID = 1, tlRights = TeamRightAdmin\<rparr>],
     team_members := [\<lparr>tmID = 1, tmTeamID = 1, tmUserID = 2\<rparr>],
     unsplash_photos := [photo9]\<rparr>"

definition share2 :: LinkSharing where
  "share2 = \<lparr>lsID = 1, lsHash = ''token'', lsListID = 2, lsRight = RightRead\<rparr>"

text \<open>An archived namespace 3 holding list 3, which is not archived, and list 4, which is.\<close>

definition ns_archived :: Namespace where
  "ns_archived = \<lparr>nID = 3, nOwnerID = 1, nOwner = zeroUser, nIsArchived = True\<rparr>"

definition row_list3 :: List_t where
  "row_list3 = zeroList\<lparr>lID := 3, lTitle := ''old'', lOwnerID := 1, lNamespaceID := 3\<rparr>"

definition row_list4 :: List_t where
  "row_list4 = zeroList\<lparr>lID := 4, lTitle := ''older'', lOwnerID := 1, lNamespaceID := 3,
     lIsArchived := True\<rparr>"

definition store_archived :: Store where
  "store_archived = empty_store\<lparr>namespaces := [ns_alice\<lparr>nOwner := zeroUser\<rparr>, ns_archived],
     list_tbl := [row_list1, row_list3, row_list4]\<rparr>"

text \<open>
  A repeating task as stored, and an environment in which the task lookup reads the
  \<open>tasks\<close> table, the assignee update sets the assignees, the timestamp update succeeds and
  the clock reads 5000.
\<close>

definition stored_task :: ListTask where
  "stored_task = \<lparr>tID = 1, tText = ''water plants'', tDescription = ''weekly'', tDone = False,
     tDoneAtUnix = 0, tDueDateUnix = 1000, tRemindersUnix = [500, 900], tCreatedByID = 1,
     tListID = 1, tRepeatAfter = 3600, tParentTaskID = 7, tPriority = 2, tStartDateUnix = 100,
     tEndDateUnix = 2000, tAssignees = [], tHexColor = ''ff0000'', tUID = ''uid1'',
     tCreatedBy = alice\<rparr>"

definition bare_task :: ListTask where
  "bare_task = \<lparr>tID = 1, tText = ''water the plants'', tDescription = [], tDone = False,
     tDoneAtUnix = 0, tDueDateUnix = 0, tRemindersUnix = [], tCreatedByID = 0,
     tListID = 0, tRepeatAfter = 0, tParentTaskID = 0, tPriority = 0, tStartDateUnix = 0,
     tEndDateUnix = 0, tAssignees = [], tHexColor = [], tUID = [],
     tCreatedBy = zeroUser\<rparr>"

definition cleared_task :: ListTask where
  "cleared_task = stored_task\<lparr>tText := ''water the plants'', tDescription := [],
     tDueDateUnix := 0, tRemindersUnix := [], tRepeatAfter := 0, tParentTaskID := 0,
     tPriority := 0, tStartDateUnix := 0, tEndDateUnix := 0, tHexColor := []\<rparr>"

definition store_tasks :: Store where
  "store_tasks = empty_store\<lparr>tasks := [stored_task]\<rparr>"

definition example_env :: UpdateEnv where
  "example_env =
     \<lparr>GetTaskByID = (\<lambda>x i. case find (\<lambda>r. tID r = i) (tasks x) of
                               None \<Rightarrow> Inl (ErrOther ''task does not exist'')
                             | Some r \<Rightarrow> Inr r),
      updateTaskAssignees = (\<lambda>x ot as. Inr (ot\<lparr>tAssignees := as\<rparr>)),
      updateListLastUpdated = (\<lambda>x i. None),
      time_Now_Unix = 5000\<rparr>"

text \<open>
  The reading of ``a zero-valued field of the incoming task is cleared in the stored
  task'', for the ten fields \<open>Update\<close> treats this way.
\<close>

definition zero_fields_cleared :: "ListTask \<Rightarrow> ListTask \<Rightarrow> bool" where
  "zero_fields_cleared t st \<longleftrightarrow>
     (\<not> tDone t \<longrightarrow> \<not> tDone st)
     \<and> (tPriority t = 0 \<longrightarrow> tPriority st = 0)
     \<and> (tDescription t = [] \<longrightarrow> tDescription st = [])
     \<and> (tDueDateUnix t = 0 \<longrightarrow> tDueDateUnix st = 0)
     \<and> (tRemindersUnix t = [] \<longrightarrow> tRemindersUnix st = [])
     \<and> (tRepeatAfter t = 0 \<longrightarrow> tRepeatAfter st = 0)
     \<and> (tParentTaskID t = 0 \<longrightarrow> tParentTaskID st = 0)
     \<and> (tStartDateUnix t = 0 \<longrightarrow> tStartDateUnix st = 0)
     \<and> (tEndDateUnix t = 0 \<longrightarrow> tEndDateUnix st = 0)
     \<and> (tHexColor t = [] \<longrightarrow> tHexColor st = [])"

section \<open>Facts about the queries\<close>








lemma checkTeamRights_ignores_namespace:
  "checkTeamRights x n user r = checkTeamRights x n' user r"
  by (simp add: checkTeamRights_def)


lemmas example_defs = alice_def bob_def carol_def ns_alice_def ns_bob_def row_list1_def list1_def
  empty_store_def store_two_owners_def store_grant_elsewhere_def store_write_team_def
  store_admin_team_def store_one_list_def zeroList_def zeroNamespace_def zeroUser_def zeroList_v1_def
  photo9_def row_list2_def store_shared_def share2_def ns_archived_def row_list3_def row_list4_def
  store_archived_def stored_task_def bare_task_def cleared_task_def store_tasks_def example_env_def

lemmas namespace_rights_defs = Namespace_CanRead_def Namespace_CanWrite_def Namespace_IsAdmin_def
  checkTeamRights_def checkTeamRights_rows_def

lemmas list_rights_defs = List_CanRead_def List_CanWrite_def List_IsAdmin_def
  checkListTeamRight_def checkListTeamRight_rows_def

lemmas lookup_defs = GetNamespaceByID_def GetListByID_def GetUserByID_def



lemma lID_addOwnerAndUpload [simp]: "lID (addOwnerAndUpload s ids l) = lID l"
  by (simp add: addOwnerAndUpload_def Let_def split: option.splits)

lemma lID_addUnsplash [simp]: "lID (addUnsplash s ids l) = lID l"
  by (simp add: addUnsplash_def split: option.splits)

lemma addListDetails_ids:
  "map lID (fst (addListDetails s ls)) = map lID ls"
  by (simp add: addListDetails_def Let_def)

lemma GetListSimpleByID_id:
  "GetListSimpleByID s i = Inr l \<Longrightarrow> lID l = i \<and> l \<in> set (list_tbl s)"
  by (auto simp: GetListSimpleByID_def find_Some_iff split: if_splits option.splits)

lemma GetListSimpleByID_grants:
  "GetListSimpleByID (s\<lparr>namespaces := nss, team_namespaces := tns, team_members := tms, team_list := tls\<rparr>) i
     = GetListSimpleByID s i"
  by (simp add: GetListSimpleByID_def)

lemma addListDetails_grants:
  "addListDetails (s\<lparr>namespaces := nss, team_namespaces := tns, team_members := tms, team_list := tls\<rparr>) ls
     = addListDetails s ls"
  by (simp add: addListDetails_def addOwnerAndUpload_def addUnsplash_def)

lemma ReadAll_share:
  "ReadAll g s l (LinkShareAuth share) search page perPage =
     (case GetListSimpleByID s (lsListID share) of
        Inl err \<Rightarrow> (None, 0, 0, Some err)
      | Inr row \<Rightarrow> (Some (fst (addListDetails s [row])), 0, 0, snd (addListDetails s [row])))"
  by (simp add: ReadAll_def split: sum.splits prod.splits)

lemma ReadAll_share_at_most_its_list:
  "fst (ReadAll g s l (LinkShareAuth share) search page perPage) = None
   \<or> (\<exists>row. fst (ReadAll g s l (LinkShareAuth share) search page perPage) = Some [row]
             \<and> lID row = lsListID share)"
proof (cases "GetListSimpleByID s (lsListID share)")
  case (Inl e)
  then show ?thesis by (simp add: ReadAll_share)
next
  case (Inr row)
  then have rid: "lID row = lsListID share" by (simp add: GetListSimpleByID_id)
  have "map lID (fst (addListDetails s [row])) = [lID row]" by (simp add: addListDetails_ids)
  then obtain row' where "fst (addListDetails s [row]) = [row']" "lID row' = lID row" by auto
  with Inr rid show ?thesis by (simp add: ReadAll_share)
qed

lemma updateDone_snd:
  "snd (updateDone now ot t) = t \<or> snd (updateDone now ot t) = t\<lparr>tDone := False\<rparr>"
  by (simp add: updateDone_def Let_def)

lemma resetZeroFields_cleared: "zero_fields_cleared t (resetZeroFields t ot)"
  by (simp add: zero_fields_cleared_def resetZeroFields_def Let_def)

lemma zero_fields_cleared_undone:
  "zero_fields_cleared (t\<lparr>tDone := False\<rparr>) st \<Longrightarrow> zero_fields_cleared t st"
  by (simp add: zero_fields_cleared_def)

lemma zero_fields_cleared_write_cols:
  "zero_fields_cleared t ot \<Longrightarrow> zero_fields_cleared t (write_cols ot row)"
  by (simp add: zero_fields_cleared_def write_cols_def)

lemma Update_success:
  assumes "Update env x t = (None, t', x')"
  shows "\<exists>ot3 t1. t1 = snd (updateDone (time_Now_Unix env) (projr (GetTaskByID env x (tID t))) t)
          \<and> t' = resetZeroFields t1 ot3
          \<and> x' = x\<lparr>tasks := map (\<lambda>row. if tID row = tID t1 then write_cols t' row else row) (tasks x)\<rparr>"
  using assms
  by (auto simp: Update_def update_task_cols_def Let_def split: sum.splits if_splits prod.splits)

lemma repeat_positive: "(0::int64) <s 3600"
  by (simp add: word_sless_alt)

lemmas update_defs = Update_def updateDone_def mergo_Merge_def override_def resetZeroFields_def
  update_task_cols_def write_cols_def Let_def

lemma updateDone_repeating:
  assumes "\<not> tDone oldTask" "tDone newTask" "0 <s tRepeatAfter oldTask"
  shows "updateDone now oldTask newTask =
           (oldTask\<lparr>tDueDateUnix := tDueDateUnix oldTask + tRepeatAfter oldTask,
                     tRemindersUnix := map (\<lambda>r. r + tRepeatAfter oldTask) (tRemindersUnix oldTask)\<rparr>,
            newTask\<lparr>tDone := False\<rparr>)"
  using assms by (simp add: updateDone_def)

section \<open>Rights on a namespace\<close>

text \<open>
  C1. The rights predicates of a namespace should hold only for its owner and for members
  of a team with a grant on that same namespace. The query of \<open>checkTeamRights\<close> does not
  restrict the namespace: Bob, who owns another namespace, is admin on Alice's namespace
  and can write and read it in a store without any team; Carol, whose team holds the read
  right on Bob's namespace only, can read Alice's namespace.
\<close>

theorem namespace_rights_leak_across_namespaces:
  "uID bob \<noteq> uID (nOwner ns_alice)
   \<and> team_namespaces store_two_owners = [] \<and> team_members store_two_owners = []
   \<and> Namespace_IsAdmin store_two_owners ns_alice bob
   \<and> Namespace_CanWrite store_two_owners ns_alice bob
   \<and> Namespace_CanRead store_two_owners ns_alice bob
   \<and> uID carol \<noteq> uID (nOwner ns_alice)
   \<and> map nOwnerID (namespaces store_grant_elsewhere) = [1, 2]
   \<and> map tnNamespaceID (team_namespaces store_grant_elsewhere) = [2]
   \<and> nID ns_alice = 1
   \<and> Namespace_CanRead store_grant_elsewhere ns_alice carol"
  by (simp add: namespace_rights_defs left_join_def col_eq_def example_defs)

text \<open>
  C2. A member of a team with the write right on a namespace should be able to read and
  write it without being admin. Bob is not the owner of Alice's namespace and his only
  grant is the membership in a team that holds the write right on it: he can write, he is
  not admin, and he cannot read, because \<open>CanRead\<close> asks for a grant whose right is
  exactly the read right.
\<close>

theorem write_team_member_cannot_read:
  "uID bob \<noteq> uID (nOwner ns_alice)
   \<and> map nOwnerID (namespaces store_write_team) = [1]
   \<and> map tnRight (team_namespaces store_write_team) = [TeamRightWrite]
   \<and> Namespace_CanWrite store_write_team ns_alice bob
   \<and> \<not> Namespace_IsAdmin store_write_team ns_alice bob
   \<and> \<not> Namespace_CanRead store_write_team ns_alice bob"
  by (simp add: namespace_rights_defs left_join_def col_eq_def example_defs)

section \<open>Rights on a list\<close>

text \<open>
  C3. A right held on a namespace should hold on every list of the namespace. Carol is a
  member of a team that is admin on Alice's namespace, so the three predicates hold for
  her on the namespace; list 1 belongs to that namespace, and none of the three holds for
  her on the list: the query of \<open>checkListTeamRight\<close> joins the namespace grants on
  \<open>tn.namespace_id = tn.id\<close>, which the grant (row 2, namespace 1) does not satisfy.
\<close>

theorem namespace_right_not_inherited_by_list:
  "vNamespaceID list1 = nID ns_alice
   \<and> map lNamespaceID (list_tbl store_admin_team) = [1]
   \<and> map tnID (team_namespaces store_admin_team) = [1, 2]
   \<and> map tnNamespaceID (team_namespaces store_admin_team) = [2, 1]
   \<and> Namespace_IsAdmin store_admin_team ns_alice carol
   \<and> Namespace_CanWrite store_admin_team ns_alice carol
   \<and> Namespace_CanRead store_admin_team ns_alice carol
   \<and> \<not> List_IsAdmin store_admin_team list1 carol
   \<and> \<not> List_CanWrite store_admin_team list1 carol
   \<and> \<not> List_CanRead store_admin_team list1 carol"
  by (simp add: namespace_rights_defs list_rights_defs left_join_def col_eq_def example_defs)

section \<open>Ids that do not resolve\<close>




section \<open>Fields supplied by the caller\<close>



section \<open>Owners\<close>

text \<open>
  C7. A user who owns a namespace is admin on it and can write and read it, and a user who
  owns a list is admin on it and can write and read it, in every store, whatever the team
  tables hold and whether or not the store answers.
\<close>

theorem owner_has_all_rights:
  "(uID user = uID (nOwner n) \<longrightarrow>
      Namespace_IsAdmin x n user \<and> Namespace_CanWrite x n user \<and> Namespace_CanRead x n user)
   \<and> (uID user = uID (vOwner l) \<longrightarrow>
      List_IsAdmin x l user \<and> List_CanWrite x l user \<and> List_CanRead x l user)"
  by (simp add: Namespace_IsAdmin_def Namespace_CanWrite_def Namespace_CanRead_def
      List_IsAdmin_def List_CanWrite_def List_CanRead_def)

theorem owner_has_all_rights_witness:
  "(uID alice = uID (nOwner ns_alice) \<and> uID alice = uID (vOwner list1))
   \<and> Namespace_IsAdmin store_admin_team ns_alice alice
   \<and> Namespace_CanWrite store_admin_team ns_alice alice
   \<and> Namespace_CanRead store_admin_team ns_alice alice
   \<and> List_IsAdmin store_admin_team list1 alice
   \<and> List_CanWrite store_admin_team list1 alice
   \<and> List_CanRead store_admin_team list1 alice"
  using owner_has_all_rights [where user = alice and n = ns_alice and l = list1 and x = store_admin_team]
  by (simp add: alice_def ns_alice_def list1_def)

section \<open>Link shares\<close>

text \<open>
  C4. With a link share as principal, in a store that answers and holds the list of the
  share, \<open>ReadAll\<close> returns exactly that one list (the stored row, with its owner and
  background details added), with counts 0 and no error; the result is the same whatever
  the namespace and team tables hold and whatever the user branch would return; and the
  effective right of the share on any list other than its own is none.
\<close>

theorem link_share_reads_only_its_list:
  assumes avail: "\<not> unavailable s"
    and pos: "1 \<le> lsListID share"
    and found: "find (\<lambda>r. lID r = lsListID share) (list_tbl s) = Some row"
    and other: "lID l2 \<noteq> lsListID share"
  shows "ReadAll g s l (LinkShareAuth share) search page perPage =
           (Some [addUnsplash s [lBackgroundFileID row] (addOwnerAndUpload s [lOwnerID row] row)],
            0, 0, None)
       \<and> lID (addUnsplash s [lBackgroundFileID row] (addOwnerAndUpload s [lOwnerID row] row))
           = lsListID share
       \<and> ReadAll g' (s\<lparr>namespaces := nss, team_namespaces := tns, team_members := tms, team_list := tls\<rparr>)
            l' (LinkShareAuth share) search' page' perPage'
          = ReadAll g s l (LinkShareAuth share) search page perPage
       \<and> LinkSharing_EffectiveRight share l2 = RightNone"
proof -
  from avail pos found have get: "GetListSimpleByID s (lsListID share) = Inr row"
    by (simp add: GetListSimpleByID_def)
  from avail have det: "addListDetails s [row] =
      ([addUnsplash s [lBackgroundFileID row] (addOwnerAndUpload s [lOwnerID row] row)], None)"
    by (simp add: addListDetails_def Let_def)
  from get det have a: "ReadAll g s l (LinkShareAuth share) search page perPage =
           (Some [addUnsplash s [lBackgroundFileID row] (addOwnerAndUpload s [lOwnerID row] row)],
            0, 0, None)"
    by (simp add: ReadAll_share)
  from get have b: "lID (addUnsplash s [lBackgroundFileID row] (addOwnerAndUpload s [lOwnerID row] row))
           = lsListID share"
    by (simp add: GetListSimpleByID_id)
  have c: "ReadAll g' (s\<lparr>namespaces := nss, team_namespaces := tns, team_members := tms, team_list := tls\<rparr>)
            l' (LinkShareAuth share) search' page' perPage'
          = ReadAll g s l (LinkShareAuth share) search page perPage"
    by (simp only: ReadAll_share GetListSimpleByID_grants addListDetails_grants)
  from other have d: "LinkSharing_EffectiveRight share l2 = RightNone"
    by (simp add: LinkSharing_EffectiveRight_def)
  from a b c d show ?thesis by blast
qed

theorem link_share_reads_only_its_list_witness:
  "ReadAll (\<lambda>s opts. Inl ErrStoreUnavailable) store_shared zeroList (LinkShareAuth share2) [] 0 0 =
     (Some [row_list2\<lparr>lOwner := Some bob, lBackgroundInformation := UnsplashBackground photo9\<rparr>],
      0, 0, None)
   \<and> ReadAll (\<lambda>s opts. Inr ([row_list1], 1, 1))
        (store_shared\<lparr>namespaces := [], team_namespaces := [], team_members := [], team_list := []\<rparr>)
        row_list1 (LinkShareAuth share2) ''1'' 1 50
      = ReadAll (\<lambda>s opts. Inl ErrStoreUnavailable) store_shared zeroList (LinkShareAuth share2) [] 0 0
   \<and> LinkSharing_EffectiveRight share2 row_list1 = RightNone"
proof -
  have avail: "\<not> unavailable store_shared"
    by (simp add: store_shared_def empty_store_def)
  have pos: "1 \<le> lsListID share2" by (simp add: share2_def)
  have found: "find (\<lambda>r. lID r = lsListID share2) (list_tbl store_shared) = Some row_list2"
    by (simp add: store_shared_def empty_store_def share2_def row_list1_def row_list2_def)
  have other: "lID row_list1 \<noteq> lsListID share2"
    by (simp add: share2_def row_list1_def)
  have details: "addUnsplash store_shared [lBackgroundFileID row_list2]
                   (addOwnerAndUpload store_shared [lOwnerID row_list2] row_list2)
                 = row_list2\<lparr>lOwner := Some bob, lBackgroundInformation := UnsplashBackground photo9\<rparr>"
    by (simp add: addUnsplash_def addOwnerAndUpload_def find_last_def example_defs)
  from link_share_reads_only_its_list [OF avail pos found other,
      where g = "\<lambda>s opts. Inl ErrStoreUnavailable" and l = zeroList and search = "[]"
        and page = 0 and perPage = 0 and g' = "\<lambda>s opts. Inr ([row_list1], 1, 1)"
        and nss = "[]" and tns = "[]" and tms = "[]" and tls = "[]"
        and l' = row_list1 and search' = "''1''" and page' = 1 and perPage' = 50,
      unfolded details]
  show ?thesis by blast
qed

section \<open>Archived lists and namespaces: the results\<close>



section \<open>Updating a task: the results\<close>

text \<open>
  C9. When \<open>Update\<close> succeeds, every one of the ten fields that has its zero value in the
  incoming task (\<open>Done\<close>, \<open>Priority\<close>, \<open>Description\<close>, \<open>DueDateUnix\<close>, \<open>RemindersUnix\<close>,
  \<open>RepeatAfter\<close>, \<open>ParentTaskID\<close>, \<open>StartDateUnix\<close>, \<open>EndDateUnix\<close>, \<open>HexColor\<close>) has its
  zero value in the task handed back and in every stored row with the id of the task,
  whatever the stored task held before.
\<close>

theorem update_clears_zero_fields:
  assumes "Update env x t = (None, t', x')"
  shows "zero_fields_cleared t t'
       \<and> (\<forall>row\<in>set (tasks x'). tID row = tID t \<longrightarrow> zero_fields_cleared t row)"
proof -
  from Update_success [OF assms] obtain ot3 t1 where
    t1: "t1 = snd (updateDone (time_Now_Unix env) (projr (GetTaskByID env x (tID t))) t)"
    and t': "t' = resetZeroFields t1 ot3"
    and x': "x' = x\<lparr>tasks := map (\<lambda>row. if tID row = tID t1 then write_cols t' row else row) (tasks x)\<rparr>"
    by blast
  from t1 updateDone_snd have cases: "t1 = t \<or> t1 = t\<lparr>tDone := False\<rparr>" by metis
  then have id: "tID t1 = tID t" by auto
  from t' have "zero_fields_cleared t1 t'" by (simp add: resetZeroFields_cleared)
  with cases have c: "zero_fields_cleared t t'" by (auto dest: zero_fields_cleared_undone)
  have "zero_fields_cleared t row" if "row \<in> set (tasks x')" "tID row = tID t" for row
  proof -
    from that(1) x' id have "row \<in> (\<lambda>r0. if tID r0 = tID t then write_cols t' r0 else r0) ` set (tasks x)"
      by simp
    then obtain r0 where "row = (if tID r0 = tID t then write_cols t' r0 else r0)"
      by (rule imageE)
    moreover have "tID (write_cols t' r0) = tID r0" by (simp add: write_cols_def)
    ultimately have "row = write_cols t' r0" using that(2) by (auto split: if_splits)
    with c show ?thesis by (simp add: zero_fields_cleared_write_cols)
  qed
  with c show ?thesis by blast
qed

theorem update_clears_zero_fields_witness:
  "Update example_env store_tasks bare_task
     = (None, cleared_task, store_tasks\<lparr>tasks := [cleared_task]\<rparr>)
   \<and> tasks store_tasks = [stored_task]
   \<and> tDescription stored_task = ''weekly'' \<and> tDescription cleared_task = []
   \<and> tPriority stored_task = 2 \<and> tPriority cleared_task = 0
   \<and> tDueDateUnix stored_task = 1000 \<and> tDueDateUnix cleared_task = 0
   \<and> tRemindersUnix stored_task = [500, 900] \<and> tRemindersUnix cleared_task = []
   \<and> tRepeatAfter stored_task = 3600 \<and> tRepeatAfter cleared_task = 0
   \<and> tParentTaskID stored_task = 7 \<and> tParentTaskID cleared_task = 0
   \<and> tStartDateUnix stored_task = 100 \<and> tStartDateUnix cleared_task = 0
   \<and> tEndDateUnix stored_task = 2000 \<and> tEndDateUnix cleared_task = 0
   \<and> tHexColor stored_task = ''ff0000'' \<and> tHexColor cleared_task = []
   \<and> \<not> tDone cleared_task"
proof -
  have run: "Update example_env store_tasks bare_task
               = (None, cleared_task, store_tasks\<lparr>tasks := [cleared_task]\<rparr>)"
    by (simp add: update_defs example_defs)
  have zeros: "\<not> tDone bare_task \<and> tPriority bare_task = 0 \<and> tDescription bare_task = []
     \<and> tDueDateUnix bare_task = 0 \<and> tRemindersUnix bare_task = [] \<and> tRepeatAfter bare_task = 0
     \<and> tParentTaskID bare_task = 0 \<and> tStartDateUnix bare_task = 0 \<and> tEndDateUnix bare_task = 0
     \<and> tHexColor bare_task = []"
    by (simp add: bare_task_def)
  have before: "tasks store_tasks = [stored_task]
     \<and> tDescription stored_task = ''weekly'' \<and> tPriority stored_task = 2
     \<and> tDueDateUnix stored_task = 1000 \<and> tRemindersUnix stored_task = [500, 900]
     \<and> tRepeatAfter stored_task = 3600 \<and> tParentTaskID stored_task = 7
     \<and> tStartDateUnix stored_task = 100 \<and> tEndDateUnix stored_task = 2000
     \<and> tHexColor stored_task = ''ff0000''"
    by (simp add: stored_task_def store_tasks_def empty_store_def)
  from update_clears_zero_fields [OF run] have "zero_fields_cleared bare_task cleared_task"
    by simp
  with zeros have "tPriority cleared_task = 0 \<and> tDescription cleared_task = []
     \<and> tDueDateUnix cleared_task = 0 \<and> tRemindersUnix cleared_task = []
     \<and> tRepeatAfter cleared_task = 0 \<and> tParentTaskID cleared_task = 0
     \<and> tStartDateUnix cleared_task = 0 \<and> tEndDateUnix cleared_task = 0
     \<and> tHexColor cleared_task = [] \<and> \<not> tDone cleared_task"
    by (simp add: zero_fields_cleared_def)
  with run before show ?thesis by blast
qed

text \<open>
  C10. Marking a repeating task as done should store it undone with its due date and its
  reminders moved on by the repeat interval. \<open>updateDone\<close> moves them on in the stored
  task, from 1000 to 4600 and from 500 and 900 to 4100 and 4500; the merge that follows in
  \<open>Update\<close> then overrides them with the values of the incoming task. When the stored task
  is sent back with only \<open>Done\<close> set, \<open>Update\<close> succeeds and leaves the task and the store
  exactly as they were: due at 1000, with reminders at 500 and 900.
\<close>

theorem repeating_task_not_moved_on:
  "\<not> tDone stored_task \<and> 0 <s tRepeatAfter stored_task
   \<and> tDueDateUnix stored_task = 1000 \<and> tRemindersUnix stored_task = [500, 900]
   \<and> tRepeatAfter stored_task = 3600
   \<and> updateDone 5000 stored_task (stored_task\<lparr>tDone := True\<rparr>)
       = (stored_task\<lparr>tDueDateUnix := 4600, tRemindersUnix := [4100, 4500]\<rparr>, stored_task)
   \<and> tasks store_tasks = [stored_task]
   \<and> Update example_env store_tasks (stored_task\<lparr>tDone := True\<rparr>)
       = (None, stored_task, store_tasks)"
  by (simp add: update_defs example_defs repeat_positive)

end
